theory Spec2Isabelle
  imports Main "HOL-Library.AList" "HOL-Library.Char_ord" "HOL-Library.List_Lexorder"
begin

section \<open>Caterpillar: converting a Chrome App into a progressive web app\<close>

text \<open>
  A shallow embedding of \<^verbatim>\<open>src/caterpillar.py\<close> (Python 2). Python exceptions are values
  of the type \<open>exn\<close>; a function that may raise returns \<open>exn + 'a\<close>. Python dictionaries
  whose iteration order is observable are association lists with distinct keys, looked up
  with \<open>map_of\<close> and updated with \<open>AList.update\<close>.
\<close>

subsection \<open>Exceptions and JSON values\<close>

text \<open>
  The exceptions that the code raises or meets. OSError, KeyError, ValueError and
  InstallationError carry what \<^verbatim>\<open>e.message\<close> reads; an OSError raised by the operating system
  has an empty message in Python 2.
\<close>

datatype exn =
    OSError string
  | IOError
  | KeyError string
  | ValueError string
  | TypeError
  | AttributeError
  | InstallationError string

datatype json =
    JNull
  | JBool bool
  | JNum int
  | JStr string
  | JArr "json list"
  | JObj "(string \<times> json) list"

type_synonym dict = "(string \<times> json) list"

text \<open>\<^verbatim>\<open>d[k]\<close> on a dictionary: KeyError when the key is missing.\<close>

definition getitem :: "dict \<Rightarrow> string \<Rightarrow> exn + json" where
  "getitem d k = (case map_of d k of None \<Rightarrow> Inl (KeyError k) | Some v \<Rightarrow> Inr v)"

text \<open>\<^verbatim>\<open>d.get(k, default)\<close>.\<close>

definition get_default :: "dict \<Rightarrow> string \<Rightarrow> json \<Rightarrow> json" where
  "get_default d k dflt = (case map_of d k of None \<Rightarrow> dflt | Some v \<Rightarrow> v)"

subsection \<open>Web manifest generation (lines 192--228)\<close>

text \<open>
  One entry of the web manifest's icon list, built in the loop body of lines 219--223:
  \<^verbatim>\<open>{'src': manifest['icons'][icon_size], 'sizes': '{0}x{0}'.format(icon_size)}\<close>.
\<close>

definition icon_entry :: "dict \<Rightarrow> string \<Rightarrow> json" where
  "icon_entry icons icon_size =
     JObj [(''src'', the (map_of icons icon_size)), (''sizes'', JStr (icon_size @ ''x'' @ icon_size))]"

text \<open>
  The icon loop. The Chrome App manifest format makes \<^verbatim>\<open>icons\<close> an object from sizes to
  paths; the loop iterates its keys and looks each one up again. A value under
  \<^verbatim>\<open>icons\<close> that is not an object is outside the manifest format: Python iterates it and
  indexes it by its own elements, which raises TypeError for every number, boolean, null,
  non-empty string and list of non-integers; the model answers TypeError for every value
  that is not an object.
\<close>

definition web_manifest_icons :: "dict \<Rightarrow> exn + json list" where
  "web_manifest_icons manifest =
     (case map_of manifest ''icons'' of
        None \<Rightarrow> Inr []
      | Some (JObj icons) \<Rightarrow> Inr (map (icon_entry icons) (map fst icons))
      | Some _ \<Rightarrow> Inl TypeError)"

definition generate_web_manifest :: "dict \<Rightarrow> string \<Rightarrow> exn + dict" where
  "generate_web_manifest manifest start_url =
     (case getitem manifest ''name'' of
        Inl e \<Rightarrow> Inl e
      | Inr name \<Rightarrow>
          (case web_manifest_icons manifest of
             Inl e \<Rightarrow> Inl e
           | Inr icons \<Rightarrow>
               Inr [(''name'', name),
                    (''short_name'', get_default manifest ''short_name'' name),
                    (''lang'', get_default manifest ''default_locale'' (JStr ''en'')),
                    (''splash_screens'', JArr []),
                    (''display'', JStr ''minimal-ui''),
                    (''orientation'', JStr ''any''),
                    (''start_url'', JStr start_url),
                    (''theme_color'', JStr ''white''),
                    (''background_color'', JStr ''white''),
                    (''related_applications'', JArr []),
                    (''prefer_related_applications'', JBool False),
                    (''icons'', JArr icons)]))"

subsection \<open>Polyfill descriptors and the conversion status (lines 621--640, 731--752)\<close>

record dependency =
  dep_name :: string
  dep_path :: string
  dep_manager :: string

record pmanifest =
  status :: string
  dependencies :: "dependency list"

text \<open>The set \<^verbatim>\<open>POLYFILLS\<close> of lines 46--52.\<close>

definition POLYFILLS :: "string list" where
  "POLYFILLS = [''notifications'', ''power'', ''runtime'', ''storage'', ''tts'']"

text \<open>
  Modelled from the spec: \<^verbatim>\<open>polyfill_manifest.default\<close> is not among the sources. The
  spec says that a default descriptor with status none and no dependencies stands in for
  any API with no registered shim.
\<close>

definition default_manifest :: "string \<Rightarrow> pmanifest" where
  "default_manifest api = \<lparr>status = ''none'', dependencies = []\<rparr>"

text \<open>
  Modelled from the spec: \<^verbatim>\<open>polyfill_manifest.load_many\<close> is not among the sources. The
  spec says that descriptors are loaded from a static registry keyed by API name; the
  registry is the parameter \<open>load\<close>, and the result is the dictionary from each given API
  to its descriptor.
\<close>

definition load_many :: "(string \<Rightarrow> pmanifest) \<Rightarrow> string list \<Rightarrow> (string \<times> pmanifest) list" where
  "load_many load apis = fold (\<lambda>api d. AList.update api (load api) d) apis []"

text \<open>Lines 622--628: the detected APIs split by membership in \<^verbatim>\<open>POLYFILLS\<close>.\<close>

definition polyfillable :: "string list \<Rightarrow> string list" where
  "polyfillable apis = filter (\<lambda>api. api \<in> set POLYFILLS) apis"

definition not_polyfillable :: "string list \<Rightarrow> string list" where
  "not_polyfillable apis = filter (\<lambda>api. api \<notin> set POLYFILLS) apis"

text \<open>Lines 733--734: default descriptors are stored for the APIs without a polyfill.\<close>

definition add_defaults :: "string list \<Rightarrow> (string \<times> pmanifest) list \<Rightarrow> (string \<times> pmanifest) list" where
  "add_defaults apis d = fold (\<lambda>api d. AList.update api (default_manifest api) d) apis d"

definition report_manifests :: "(string \<Rightarrow> pmanifest) \<Rightarrow> string list \<Rightarrow> (string \<times> pmanifest) list" where
  "report_manifests load apis =
     add_defaults (not_polyfillable apis) (load_many load (polyfillable apis))"

text \<open>Lines 747--752: the loop over the descriptors, which stops at the first break.\<close>

fun conversion_status :: "(string \<times> pmanifest) list \<Rightarrow> string" where
  "conversion_status [] = ''total''"
| "conversion_status ((api, manifest) # rest) =
     (if status manifest \<noteq> ''total'' \<and> api \<notin> {''app.window'', ''app.runtime''}
      then ''partial''
      else conversion_status rest)"

subsection \<open>Script annotation (lines 318--347)\<close>

text \<open>
  A file is the text that \<^verbatim>\<open>surrogateescape.decode\<close> yields for its bytes; the module
  \<^verbatim>\<open>surrogateescape\<close> is not among the sources and is taken to be a lossless round trip, so
  that a file written by one pass is read back as the same text by the next.

  Iterating over an open file yields its lines, each with its line feed; the last line may
  lack one.
\<close>

fun file_lines :: "string \<Rightarrow> string list" where
  "file_lines [] = []"
| "file_lines (c # cs) =
     (if c = CHR 0x0A then [c] # file_lines cs
      else (case file_lines cs of [] \<Rightarrow> [[c]] | l # ls \<Rightarrow> (c # l) # ls))"

text \<open>\<^verbatim>\<open>s.endswith(suffix)\<close>.\<close>

definition endswith :: "string \<Rightarrow> string \<Rightarrow> bool" where
  "endswith s suffix \<longleftrightarrow>
     length suffix \<le> length s \<and> drop (length s - length suffix) s = suffix"

text \<open>Lines 336--338: the comment, ended as the flagged line is ended.\<close>

definition todo_comment :: "string \<Rightarrow> string \<Rightarrow> string" where
  "todo_comment api_call line =
     ''// TODO(Caterpillar): Check usage of '' @ api_call @ ''.'' @
       (if endswith line [CHR 0x0D, CHR 0x0A] then [CHR 0x0D, CHR 0x0A] else [CHR 0x0A])"

text \<open>
  Lines 333--342, the body of the loop: what one line adds to \<^verbatim>\<open>out_js_lines\<close>. The function
  \<^verbatim>\<open>chrome_app.apis.api_member_used\<close> is not among the sources; it is the parameter
  \<open>api_member_used\<close>, any function from a line to the API member it names, if any.
\<close>

definition annotate_line :: "(string \<Rightarrow> string option) \<Rightarrow> string \<Rightarrow> string list" where
  "annotate_line api_member_used line =
     (case api_member_used line of
        None \<Rightarrow> [line]
      | Some api_call \<Rightarrow> [todo_comment api_call line, line])"

text \<open>The new content of the file: \<^verbatim>\<open>''.join(out_js_lines)\<close>.\<close>

definition insert_todos_into_file :: "(string \<Rightarrow> string option) \<Rightarrow> string \<Rightarrow> string" where
  "insert_todos_into_file api_member_used content =
     concat (concat (map (annotate_line api_member_used) (file_lines content)))"

text \<open>
  Modelled from the spec: \<^verbatim>\<open>chrome_app.apis.api_member_used\<close> is not among the sources. The
  spec describes a lexical, per-line match of a call pattern such as
  \<^verbatim>\<open>namespace.member(...)\<close>. This instance finds the first \<^verbatim>\<open>chrome.\<close> of a line and answers
  the dotted name after it. It stands for the parameter in examples only.
\<close>

fun strip_prefix :: "string \<Rightarrow> string \<Rightarrow> string option" where
  "strip_prefix [] s = Some s"
| "strip_prefix (p # ps) [] = None"
| "strip_prefix (p # ps) (c # cs) = (if p = c then strip_prefix ps cs else None)"

fun find_after :: "string \<Rightarrow> string \<Rightarrow> string option" where
  "find_after pat [] = strip_prefix pat []"
| "find_after pat (c # cs) =
     (case strip_prefix pat (c # cs) of Some rest \<Rightarrow> Some rest | None \<Rightarrow> find_after pat cs)"

definition is_member_char :: "char \<Rightarrow> bool" where
  "is_member_char c \<longleftrightarrow>
     c \<in> set ''abcdefghijklmnopqrstuvwxyzABCDEFGHIJKLMNOPQRSTUVWXYZ0123456789_.''"

definition lexical_api_member :: "string \<Rightarrow> string option" where
  "lexical_api_member line =
     (case find_after ''chrome.'' line of
        None \<Rightarrow> None
      | Some rest \<Rightarrow> (case takeWhile is_member_char rest of [] \<Rightarrow> None | name \<Rightarrow> Some name))"

subsection \<open>Paths (\<^verbatim>\<open>os.path\<close> on POSIX)\<close>

text \<open>\<^verbatim>\<open>sep.join(parts)\<close>.\<close>

fun str_join :: "string \<Rightarrow> string list \<Rightarrow> string" where
  "str_join sep [] = []"
| "str_join sep [x] = x"
| "str_join sep (x # y # ys) = x @ sep @ str_join sep (y # ys)"

text \<open>\<^verbatim>\<open>os.path.join(a, b)\<close>; with more arguments it is applied from the left.\<close>

definition path_join :: "string \<Rightarrow> string \<Rightarrow> string" where
  "path_join a b =
     (if b \<noteq> [] \<and> hd b = CHR ''/'' then b
      else if a = [] \<or> last a = CHR ''/'' then a @ b
      else a @ ''/'' @ b)"

text \<open>The parts of a path between its slashes.\<close>

fun split_slash :: "string \<Rightarrow> string list" where
  "split_slash [] = [[]]"
| "split_slash (c # cs) =
     (if c = CHR ''/'' then [] # split_slash cs
      else (case split_slash cs of [] \<Rightarrow> [[c]] | p # ps \<Rightarrow> (c # p) # ps))"

text \<open>
  Where a path given relative to the output directory lies in the output tree: its parts,
  without the empty ones and the \<^verbatim>\<open>.\<close> ones. The configured directories are taken to be
  relative paths with no \<^verbatim>\<open>..\<close> part.
\<close>

definition components :: "string \<Rightarrow> string list" where
  "components p = filter (\<lambda>c. c \<noteq> [] \<and> c \<noteq> ''.'') (split_slash p)"

subsection \<open>The file tree\<close>

datatype node = File string | Dir "(string \<times> node) list"

type_synonym path = "string list"

fun lookup :: "node \<Rightarrow> path \<Rightarrow> node option" where
  "lookup n [] = Some n"
| "lookup (File _) (c # cs) = None"
| "lookup (Dir es) (c # cs) = (case map_of es c of None \<Rightarrow> None | Some n \<Rightarrow> lookup n cs)"

text \<open>
  One system call on the entry at a path: \<open>f\<close> sees the entry (or its absence) and answers the
  new entry, its removal, or an error; \<open>e\<close> is the error of a path that leads through a
  missing directory or a file, and of the root itself.
\<close>

fun modify :: "exn \<Rightarrow> (node option \<Rightarrow> exn + node option) \<Rightarrow> path \<Rightarrow> node \<Rightarrow> exn + node" where
  "modify e f [] n = Inl e"
| "modify e f (c # cs) (File _) = Inl e"
| "modify e f [c] (Dir es) =
     (case f (map_of es c) of
        Inl x \<Rightarrow> Inl x
      | Inr None \<Rightarrow> Inr (Dir (AList.delete c es))
      | Inr (Some n) \<Rightarrow> Inr (Dir (AList.update c n es)))"
| "modify e f (c # c' # cs) (Dir es) =
     (case map_of es c of
        None \<Rightarrow> Inl e
      | Some n \<Rightarrow>
          (case modify e f (c' # cs) n of
             Inl x \<Rightarrow> Inl x
           | Inr n' \<Rightarrow> Inr (Dir (AList.update c n' es))))"

text \<open>
  \<^verbatim>\<open>open(path, 'w')\<close> followed by one write: IOError when the directory is missing or the path
  is a directory.
\<close>

definition write_entry :: "string \<Rightarrow> node option \<Rightarrow> exn + node option" where
  "write_entry content cur =
     (case cur of Some (Dir _) \<Rightarrow> Inl IOError | _ \<Rightarrow> Inr (Some (File content)))"

definition write_file :: "path \<Rightarrow> string \<Rightarrow> node \<Rightarrow> exn + node" where
  "write_file p content = modify IOError (write_entry content) p"

text \<open>\<^verbatim>\<open>os.remove(path)\<close>: OSError unless the path is a file.\<close>

definition remove_entry :: "node option \<Rightarrow> exn + node option" where
  "remove_entry cur = (case cur of Some (File _) \<Rightarrow> Inr None | _ \<Rightarrow> Inl (OSError []))"

definition remove :: "path \<Rightarrow> node \<Rightarrow> exn + node" where
  "remove p = modify (OSError []) remove_entry p"

text \<open>\<^verbatim>\<open>os.mkdir(path)\<close>: OSError when the path exists or its parent is missing.\<close>

definition mkdir_entry :: "node option \<Rightarrow> exn + node option" where
  "mkdir_entry cur = (case cur of None \<Rightarrow> Inr (Some (Dir [])) | Some _ \<Rightarrow> Inl (OSError []))"

definition mkdir :: "path \<Rightarrow> node \<Rightarrow> exn + node" where
  "mkdir p = modify (OSError []) mkdir_entry p"

definition is_file :: "node \<Rightarrow> bool" where
  "is_file n = (case n of File _ \<Rightarrow> True | Dir _ \<Rightarrow> False)"

text \<open>
  \<^verbatim>\<open>os.walk(top)\<close>: for the directory at \<open>dirpath\<close> its path, the names of its directories and
  the names of its files, then the same for each of its directories.
\<close>

fun walk :: "path \<Rightarrow> node \<Rightarrow> (path \<times> string list \<times> string list) list" where
  "walk dirpath (File _) = []"
| "walk dirpath (Dir es) =
     (dirpath, map fst (filter (\<lambda>(name, n). \<not> is_file n) es),
               map fst (filter (\<lambda>(name, n). is_file n) es)) #
     concat (map (\<lambda>(name, n). walk (dirpath @ [name]) n) es)"

text \<open>The paths of the files that a walk meets, in the order in which it meets them.\<close>

definition walk_files :: "node \<Rightarrow> path list" where
  "walk_files root =
     concat (map (\<lambda>(dirpath, dirnames, filenames). map (\<lambda>filename. dirpath @ [filename]) filenames)
       (walk [] root))"


subsection \<open>Markup documents\<close>

text \<open>
  A parsed document as BeautifulSoup holds it: a forest of elements and strings. An element
  has a name, attributes and children. A Python reference to an element of the document is
  its position: the indices that lead to it from the top.
\<close>

datatype dom = Text string | Tag string "(string \<times> json) list" "dom list"

definition is_tag :: "string \<Rightarrow> dom \<Rightarrow> bool" where
  "is_tag name n = (case n of Tag nm _ _ \<Rightarrow> nm = name | Text _ \<Rightarrow> False)"

text \<open>\<^verbatim>\<open>soup(...)\<close>, that is \<^verbatim>\<open>find_all\<close>: the matching elements in document order.\<close>

fun find_all :: "(dom \<Rightarrow> bool) \<Rightarrow> dom list \<Rightarrow> dom list"
  and find_all_in :: "(dom \<Rightarrow> bool) \<Rightarrow> dom \<Rightarrow> dom list" where
  "find_all P [] = []"
| "find_all P (n # ns) = (if P n then [n] else []) @ find_all_in P n @ find_all P ns"
| "find_all_in P (Text _) = []"
| "find_all_in P (Tag _ _ cs) = find_all P cs"

text \<open>The position of the first matching element in document order, if there is one.\<close>

fun first_path :: "(dom \<Rightarrow> bool) \<Rightarrow> dom list \<Rightarrow> nat list option"
  and first_path_in :: "(dom \<Rightarrow> bool) \<Rightarrow> dom \<Rightarrow> nat list option" where
  "first_path P [] = None"
| "first_path P (n # ns) =
     (if P n then Some [0]
      else (case first_path_in P n of
              Some p \<Rightarrow> Some (0 # p)
            | None \<Rightarrow>
                (case first_path P ns of
                   Some (i # p) \<Rightarrow> Some (Suc i # p)
                 | _ \<Rightarrow> None)))"
| "first_path_in P (Text _) = None"
| "first_path_in P (Tag _ _ cs) = first_path P cs"

text \<open>The new element becomes the child at the given position; later children move up.\<close>

fun insert_at :: "nat list \<Rightarrow> dom \<Rightarrow> dom list \<Rightarrow> dom list"
  and insert_in :: "nat list \<Rightarrow> dom \<Rightarrow> dom \<Rightarrow> dom" where
  "insert_at [] new ns = ns"
| "insert_at [i] new ns = take i ns @ new # drop i ns"
| "insert_at (i # j # p) new ns =
     (if i < length ns then ns[i := insert_in (j # p) new (ns ! i)] else ns)"
| "insert_in p new (Text t) = Text t"
| "insert_in p new (Tag nm attrs cs) = Tag nm attrs (insert_at p new cs)"

text \<open>The number of children of the element at a position.\<close>

fun n_children :: "nat list \<Rightarrow> dom list \<Rightarrow> nat" where
  "n_children [] ns = length ns"
| "n_children (i # p) ns =
     (if i < length ns then (case ns ! i of Tag _ _ cs \<Rightarrow> n_children p cs | Text _ \<Rightarrow> 0) else 0)"

text \<open>\<^verbatim>\<open>tag.append(new)\<close> for the element at position \<open>p\<close>.\<close>

definition append_child :: "nat list \<Rightarrow> dom \<Rightarrow> dom list \<Rightarrow> dom list" where
  "append_child p new soup = insert_at (p @ [n_children p soup]) new soup"

subsection \<open>Script-tag injection (lines 243--278)\<close>

text \<open>
  Lines 271--272: the script element for a required path,
  \<^verbatim>\<open>soup.new_tag('script', src=os.path.join(root_path, boilerplate_dir, script_path))\<close>.
\<close>

definition script_tag :: "string \<Rightarrow> string \<Rightarrow> string \<Rightarrow> dom" where
  "script_tag root_path boilerplate script_path =
     Tag ''script'' [(''src'', JStr (path_join (path_join root_path boilerplate) script_path))] []"

text \<open>
  The loop of lines 269--278 over the reversed paths. \<open>first_script\<close> is the position of the
  element that the Python variable of that name refers to, or \<open>None\<close>. An element inserted
  before the element at a position takes that position, so the variable keeps its value
  when it is set to the new element. \<^verbatim>\<open>soup.body\<close> is the first \<^verbatim>\<open>body\<close> element or \<^verbatim>\<open>None\<close>,
  and \<^verbatim>\<open>None.append\<close> raises AttributeError.
\<close>

fun inject_loop :: "string \<Rightarrow> string \<Rightarrow> string list \<Rightarrow> nat list option \<Rightarrow> dom list \<Rightarrow> exn + dom list" where
  "inject_loop root_path boilerplate_dir [] first_script soup = Inr soup"
| "inject_loop root_path boilerplate_dir (script_path # rest) first_script soup =
     (let script = script_tag root_path boilerplate_dir script_path
      in case first_script of
           None \<Rightarrow>
             (case first_path (is_tag ''body'') soup of
                None \<Rightarrow> Inl AttributeError
              | Some body \<Rightarrow>
                  inject_loop root_path boilerplate_dir rest
                    (Some (body @ [n_children body soup])) (append_child body script soup))
         | Some p \<Rightarrow>
             inject_loop root_path boilerplate_dir rest (Some p) (insert_at p script soup))"

definition inject_script_tags :: "dom list \<Rightarrow> string list \<Rightarrow> string \<Rightarrow> string \<Rightarrow> exn + dom list" where
  "inject_script_tags soup required_js_paths root_path boilerplate_dir =
     (if required_js_paths = [] then Inr soup
      else inject_loop root_path boilerplate_dir (rev required_js_paths)
             (first_path (is_tag ''script'') soup) soup)"

subsection \<open>Metadata injection (lines 281--315)\<close>

definition WEB_MANIFEST_FILENAME :: string where
  "WEB_MANIFEST_FILENAME = ''manifest.webmanifest''"

definition meta_named :: "string \<Rightarrow> dom \<Rightarrow> bool" where
  "meta_named tag n =
     (case n of Tag nm attrs _ \<Rightarrow> nm = ''meta'' \<and> map_of attrs ''name'' = Some (JStr tag)
      | Text _ \<Rightarrow> False)"

definition meta_charset :: "dom \<Rightarrow> bool" where
  "meta_charset n =
     (case n of Tag nm attrs _ \<Rightarrow> nm = ''meta'' \<and> map_of attrs ''charset'' \<noteq> None
      | Text _ \<Rightarrow> False)"

text \<open>Lines 292--298: the head element, made and put first when the document has none.\<close>

definition ensure_head :: "dom list \<Rightarrow> dom list \<times> nat list" where
  "ensure_head soup =
     (case first_path (is_tag ''head'') soup of
        Some head \<Rightarrow> (soup, head)
      | None \<Rightarrow>
          (case first_path (is_tag ''html'') soup of
             Some html \<Rightarrow> (insert_at (html @ [0]) (Tag ''head'' [] []) soup, html @ [0])
           | None \<Rightarrow> (insert_at [0] (Tag ''head'' [] []) soup, [0])))"

text \<open>Lines 306--312, the body of the loop over the three descriptive fields.\<close>

definition inject_meta :: "dict \<Rightarrow> nat list \<Rightarrow> string \<Rightarrow> dom list \<Rightarrow> dom list" where
  "inject_meta chrome_app_manifest head tag soup =
     (case map_of chrome_app_manifest tag of
        None \<Rightarrow> soup
      | Some content \<Rightarrow>
          if find_all (meta_named tag) soup = []
          then append_child head (Tag ''meta'' [(''content'', content), (''name'', JStr tag)] []) soup
          else soup)"

definition inject_misc_tags :: "dom list \<Rightarrow> dict \<Rightarrow> string \<Rightarrow> dom list" where
  "inject_misc_tags soup0 chrome_app_manifest root_path =
     (let (soup1, head) = ensure_head soup0;
          manifest_link = Tag ''link''
            [(''rel'', JStr ''manifest''),
             (''href'', JStr (path_join root_path WEB_MANIFEST_FILENAME))] [];
          soup2 = append_child head manifest_link soup1;
          soup3 = fold (inject_meta chrome_app_manifest head)
            [''description'', ''author'', ''name''] soup2
      in if find_all meta_charset soup3 = []
         then insert_at (head @ [0]) (Tag ''meta'' [(''charset'', JStr ''utf-8'')] []) soup3
         else soup3)"

subsection \<open>The world of a conversion\<close>

text \<open>
  The state that \<^verbatim>\<open>convert_app\<close> works on: the tree at the input path, the tree at the output
  path (\<open>None\<close> when nothing is there; the two paths are taken to be apart), the records
  handed to the root logger, and the calls of the report generator. The logger drops DEBUG
  records unless the run is verbose; they are left out. The list \<^verbatim>\<open>captured_warnings\<close> is
  the list to which the handler of lines 783--801 appends every warning, so at any moment
  it holds the warnings logged so far.
\<close>

datatype level = INFO | WARNING | ERROR

record report_call =
  rc_report_dir :: string
  rc_manifest :: dict
  rc_polyfill_manifests :: "(string \<times> pmanifest) list"
  rc_status :: string
  rc_warnings :: "string list"

record world =
  input_tree :: "node option"
  output_tree :: "node option"
  logged :: "(level \<times> string) list"
  reports :: "report_call list"

type_synonym 'a result = "(exn + 'a) \<times> world"

definition logging :: "level \<Rightarrow> string \<Rightarrow> world \<Rightarrow> world" where
  "logging lvl msg w = w\<lparr>logged := logged w @ [(lvl, msg)]\<rparr>"

definition captured_warnings :: "world \<Rightarrow> string list" where
  "captured_warnings w = map snd (filter (\<lambda>(lvl, msg). lvl = WARNING) (logged w))"

text \<open>One operation on the output tree; \<open>e\<close> is its error when nothing is at the output path.\<close>

definition on_output :: "exn \<Rightarrow> (node \<Rightarrow> exn + node) \<Rightarrow> world \<Rightarrow> unit result" where
  "on_output e f w =
     (case output_tree w of
        None \<Rightarrow> (Inl e, w)
      | Some root \<Rightarrow>
          (case f root of
             Inl x \<Rightarrow> (Inl x, w)
           | Inr root' \<Rightarrow> (Inr (), w\<lparr>output_tree := Some root'\<rparr>)))"

text \<open>Sequencing: the second step runs unless the first one raised.\<close>

definition and_then :: "'a result \<Rightarrow> ('a \<Rightarrow> world \<Rightarrow> 'b result) \<Rightarrow> 'b result" where
  "and_then r f = (case r of (Inl e, w) \<Rightarrow> (Inl e, w) | (Inr x, w) \<Rightarrow> f x w)"

text \<open>
  What the conversion takes from modules that are not among the sources, from the
  standard library and from the machine it runs on.
\<close>

record process_result =
  stdout :: string
  stderr :: string
  returncode :: int
  tree_after :: node

record env =
  app_apis :: "node option \<Rightarrow> string list"
  api_member_used :: "string \<Rightarrow> string option"
  load_manifest :: "string \<Rightarrow> pmanifest"
  chrome_manifest :: "node option \<Rightarrow> exn + dict"
  MANIFEST_FILENAME :: string
  parse_html :: "string \<Rightarrow> dom list"
  prettify :: "dom list \<Rightarrow> string"
  json_dumps :: "nat \<Rightarrow> dict \<Rightarrow> string"
  py_str :: "json \<Rightarrow> string"
  script_dir_js :: "string \<Rightarrow> string option"
  popen :: "string list \<Rightarrow> node \<Rightarrow> exn + process_result"
  randrange :: nat

record config =
  boilerplate_dir :: string
  report_dir :: string
  start_url :: string

subsection \<open>Setting up and cleaning the output directory (lines 115--172)\<close>

text \<open>
  \<^verbatim>\<open>shutil.rmtree(output_dir, ignore_errors=True)\<close>: a directory goes; a plain file stays, as
  the errors of listing and removing it are ignored.
\<close>

definition rmtree :: "world \<Rightarrow> world" where
  "rmtree w = (case output_tree w of Some (Dir _) \<Rightarrow> w\<lparr>output_tree := None\<rparr> | _ \<Rightarrow> w)"

text \<open>
  \<^verbatim>\<open>shutil.copytree(input_dir, output_dir)\<close>: OSError when the input is not a directory
  (listing it fails) or the output path exists (making it fails).
\<close>

definition copytree :: "world \<Rightarrow> unit result" where
  "copytree w =
     (case input_tree w of
        Some (Dir es) \<Rightarrow>
          (case output_tree w of
             None \<Rightarrow> (Inr (), w\<lparr>output_tree := Some (Dir es)\<rparr>)
           | Some _ \<Rightarrow> (Inl (OSError []), w))
      | _ \<Rightarrow> (Inl (OSError []), w))"

definition setup_output_dir :: "string \<Rightarrow> string \<Rightarrow> bool \<Rightarrow> world \<Rightarrow> unit result" where
  "setup_output_dir boilerplate report force w =
     (if \<not> force \<and> output_tree w \<noteq> None
      then (Inl (OSError ''Output directory already exists.''), w)
      else
        and_then (copytree (if force then rmtree w else w)) (\<lambda>_ w.
        and_then (on_output (OSError []) (mkdir (components boilerplate)) w) (\<lambda>_ w.
        and_then (on_output (OSError []) (mkdir (components boilerplate @ [''polyfills''])) w) (\<lambda>_ w.
        on_output (OSError []) (mkdir (components report)) w))))"

definition cleanup_output_dir :: "string \<Rightarrow> world \<Rightarrow> unit result" where
  "cleanup_output_dir manifest_filename w =
     on_output (OSError []) (remove (components manifest_filename)) w"

subsection \<open>Copying static code (lines 175--189, 417--427)\<close>

text \<open>
  \<^verbatim>\<open>shutil.copyfile(src, dst)\<close> from Caterpillar's own \<^verbatim>\<open>js\<close> directory: IOError when the source
  is missing, then when the destination cannot be opened.
\<close>

definition copyfile :: "env \<Rightarrow> string \<Rightarrow> path \<Rightarrow> world \<Rightarrow> unit result" where
  "copyfile E source destination w =
     (case script_dir_js E source of
        None \<Rightarrow> (Inl IOError, w)
      | Some content \<Rightarrow> on_output IOError (write_file destination content) w)"

fun copy_static_code :: "env \<Rightarrow> string list \<Rightarrow> string \<Rightarrow> world \<Rightarrow> unit result" where
  "copy_static_code E [] boilerplate w = (Inr (), w)"
| "copy_static_code E (static_code_path # rest) boilerplate w =
     and_then
       (copyfile E static_code_path (components (path_join boilerplate static_code_path)) w)
       (\<lambda>_ w. copy_static_code E rest boilerplate w)"

definition copy_script :: "env \<Rightarrow> string \<Rightarrow> string \<Rightarrow> world \<Rightarrow> unit result" where
  "copy_script E script directory w =
     copyfile E script (components (path_join directory script)) w"

subsection \<open>Editing code (lines 557--591)\<close>

definition read_file :: "path \<Rightarrow> world \<Rightarrow> string result" where
  "read_file p w =
     (case output_tree w of
        None \<Rightarrow> (Inl IOError, w)
      | Some root \<Rightarrow> (case lookup root p of Some (File c) \<Rightarrow> (Inr c, w) | _ \<Rightarrow> (Inl IOError, w)))"

text \<open>\<^verbatim>\<open>os.path.relpath(output_dir, dirpath)\<close> for a directory \<open>depth\<close> levels down.\<close>

definition root_path_of :: "nat \<Rightarrow> string" where
  "root_path_of depth = (if depth = 0 then ''.'' else str_join ''/'' (replicate depth ''..''))"

text \<open>Lines 577--591, the body of the loop, for the file at path \<open>p\<close> of the output tree.\<close>

definition edit_file :: "env \<Rightarrow> string list \<Rightarrow> dict \<Rightarrow> config \<Rightarrow> path \<Rightarrow> world \<Rightarrow> unit result" where
  "edit_file E required_js_paths chrome_app_manifest cfg p w =
     (if endswith (last p) ''.js'' then
        and_then (read_file p w) (\<lambda>content w.
        on_output IOError (write_file p (insert_todos_into_file (api_member_used E) content)) w)
      else if endswith (last p) ''.html'' then
        and_then (read_file p w) (\<lambda>content w.
        (case inject_script_tags (parse_html E content) required_js_paths
                (root_path_of (length p - 1)) (boilerplate_dir cfg) of
           Inl e \<Rightarrow> (Inl e, w)
         | Inr soup \<Rightarrow>
             on_output IOError
               (write_file p (prettify E
                  (inject_misc_tags soup chrome_app_manifest (root_path_of (length p - 1))))) w))
      else (Inr (), w))"

fun edit_files :: "env \<Rightarrow> string list \<Rightarrow> dict \<Rightarrow> config \<Rightarrow> path list \<Rightarrow> world \<Rightarrow> unit result" where
  "edit_files E required_js_paths chrome_app_manifest cfg [] w = (Inr (), w)"
| "edit_files E required_js_paths chrome_app_manifest cfg (p # ps) w =
     and_then (edit_file E required_js_paths chrome_app_manifest cfg p w)
       (\<lambda>_ w. edit_files E required_js_paths chrome_app_manifest cfg ps w)"

text \<open>
  The walk meets every file once; editing rewrites files in place and neither adds nor
  removes one, so the files met are those of the tree as it is when the walk starts.
\<close>

definition edit_code :: "env \<Rightarrow> string list \<Rightarrow> dict \<Rightarrow> config \<Rightarrow> world \<Rightarrow> unit result" where
  "edit_code E required_js_paths chrome_app_manifest cfg w =
     (case output_tree w of
        None \<Rightarrow> (Inr (), w)
      | Some root \<Rightarrow> edit_files E required_js_paths chrome_app_manifest cfg (walk_files root) w)"

subsection \<open>Installing dependencies (lines 474--537)\<close>

text \<open>
  \<^verbatim>\<open>subprocess.Popen(call, cwd=output_dir, ...).communicate()\<close>: the process may change the
  output tree; starting it may raise. The exit status is not read.
\<close>

definition install_dependency :: "env \<Rightarrow> string list \<Rightarrow> world \<Rightarrow> unit result" where
  "install_dependency E call w =
     (case output_tree w of
        None \<Rightarrow> (Inl (OSError []), w)
      | Some root \<Rightarrow>
          (case popen E call root of
             Inl e \<Rightarrow> (Inl e, w)
           | Inr r \<Rightarrow>
               (if stdout r = []
                then (Inl (InstallationError
                        (''Failed to install with command: `'' @ str_join '' '' call @ ''`.'')),
                      w\<lparr>output_tree := Some (tree_after r)\<rparr>)
                else (Inr (), w\<lparr>output_tree := Some (tree_after r)\<rparr>))))"

text \<open>Lines 526--533: the body of the \<^verbatim>\<open>try\<close>.\<close>

definition install_one :: "env \<Rightarrow> dependency \<Rightarrow> world \<Rightarrow> unit result" where
  "install_one E dependency w =
     (if dep_manager dependency = ''bower''
      then install_dependency E [''bower'', ''install'', dep_name dependency] w
      else if dep_manager dependency = ''npm''
      then install_dependency E [''npm'', ''install'', dep_name dependency] w
      else (Inl (ValueError (''Invalid dependency: No such manager `'' @
                   dep_manager dependency @ ''`.'')), w))"

text \<open>Lines 535--537: the warning for a dependency that failed to install.\<close>

definition install_warning :: "dependency \<Rightarrow> string" where
  "install_warning d =
     ''Failed to install dependency `'' @ dep_name d @ ''` with '' @ dep_manager d"

fun install_dependencies :: "env \<Rightarrow> dependency list \<Rightarrow> world \<Rightarrow> unit result" where
  "install_dependencies E [] w = (Inr (), w)"
| "install_dependencies E (dependency # rest) w =
     (case install_one E dependency w of
        (Inl (InstallationError _), w') \<Rightarrow>
          install_dependencies E rest (logging WARNING (install_warning dependency) w')
      | (Inl e, w') \<Rightarrow> (Inl e, w')
      | (Inr _, w') \<Rightarrow> install_dependencies E rest w')"

subsection \<open>The service worker (lines 82--112, 367--453)\<close>

definition REGISTER_SCRIPT_NAME :: string where
  "REGISTER_SCRIPT_NAME = ''register_sw.js''"

definition SW_SCRIPT_NAME :: string where
  "SW_SCRIPT_NAME = ''sw.js''"

definition SW_STATIC_SCRIPT_NAME :: string where
  "SW_STATIC_SCRIPT_NAME = ''sw_static.js''"

definition INFO_SCRIPT_NAME :: string where
  "INFO_SCRIPT_NAME = ''app.info.js''"

text \<open>A natural number in decimal, as \<^verbatim>\<open>format\<close> writes it.\<close>

function show_nat :: "nat \<Rightarrow> string" where
  "show_nat n =
     (if n < 10 then [char_of (48 + n)] else show_nat (n div 10) @ [char_of (48 + n mod 10)])"
  by pat_completeness auto
termination
  by (relation "measure id") auto

definition unlines :: "string list \<Rightarrow> string" where
  "unlines ls = concat (map (\<lambda>l. l @ [CHR 0x0A]) ls)"

definition quoted :: "string \<Rightarrow> string" where
  "quoted s = [CHR 0x27] @ s @ [CHR 0x27]"

text \<open>\<^verbatim>\<open>SW_FORMAT_STRING.format(...)\<close>, lines 82--112 and 397--401.\<close>

definition SW_FORMAT_STRING :: "string \<Rightarrow> string \<Rightarrow> string \<Rightarrow> string" where
  "SW_FORMAT_STRING cache_version joined_filepaths boilerplate = unlines
     [''/**'',
      '' * Service worker generated by Caterpillar.'',
      '' */'',
      '''',
      ''/**'',
      '' * Current cache version.'',
      '' *'',
      '' * Increment this to force cache to clear.'',
      '' */'',
      ''var CACHE_VERSION = '' @ cache_version @ '';'',
      '''',
      ''/**'',
      '' * Object mapping a cache identifier to the actual, versioned cache name.'',
      '' */'',
      ''var CACHES = {'',
      ''  '' @ quoted ''app'' @ '': '' @ quoted ''app-cache-v'' @ '' + CACHE_VERSION'',
      ''};'',
      '''',
      ''/**'',
      '' * An array of filenames of cached files.'',
      '' */'',
      ''var CACHED_FILES = ['',
      ''  '' @ joined_filepaths,
      ''];'',
      '''',
      ''importScripts('' @ quoted (boilerplate @ ''/caterpillar.js'') @ '');'',
      ''importScripts('' @ quoted (boilerplate @ ''/sw_static.js'') @ '');'',
      '''',
      ''// TODO(Caterpillar): Edit background scripts to remove chrome.app.runtime'',
      ''// dependence.'']"

text \<open>
  Lines 381--390: the relative paths of the files under the output directory, sorted. With
  nothing at the output path the walk meets nothing.
\<close>

definition cached_filepaths :: "node option \<Rightarrow> string list" where
  "cached_filepaths tree =
     (case tree of None \<Rightarrow> [] | Some root \<Rightarrow> sort (map (str_join ''/'') (walk_files root)))"

text \<open>\<^verbatim>\<open>chrome_app_manifest['app']['background'].get('scripts', [])\<close>, as far as line 410 uses it.\<close>

definition background_scripts :: "dict \<Rightarrow> exn + json list" where
  "background_scripts chrome_app_manifest =
     (case map_of chrome_app_manifest ''app'' of
        None \<Rightarrow> Inl (KeyError ''app'')
      | Some (JObj app) \<Rightarrow>
          (case map_of app ''background'' of
             None \<Rightarrow> Inl (KeyError ''background'')
           | Some (JObj background) \<Rightarrow>
               (case map_of background ''scripts'' of
                  None \<Rightarrow> Inr []
                | Some (JArr scripts) \<Rightarrow> Inr scripts
                | Some _ \<Rightarrow> Inl TypeError)
           | Some _ \<Rightarrow> Inl AttributeError)
      | Some _ \<Rightarrow> Inl TypeError)"

definition format_script :: "env \<Rightarrow> json \<Rightarrow> string" where
  "format_script E script = (case script of JStr s \<Rightarrow> s | _ \<Rightarrow> py_str E script)"

definition import_scripts :: "string \<Rightarrow> string" where
  "import_scripts script = ''importScripts('' @ quoted script @ '');'' @ [CHR 0x0A]"

definition generate_service_worker ::
    "env \<Rightarrow> node option \<Rightarrow> dict \<Rightarrow> string list \<Rightarrow> string \<Rightarrow> exn + string" where
  "generate_service_worker E tree chrome_app_manifest required_js_paths boilerplate =
     (let all_filepaths = map quoted (cached_filepaths tree);
          sw_js = SW_FORMAT_STRING (show_nat (randrange E))
                    (str_join ('','' @ [CHR 0x0A] @ ''  '') all_filepaths) boilerplate
      in case background_scripts chrome_app_manifest of
           Inl e \<Rightarrow> Inl e
         | Inr scripts \<Rightarrow>
             Inr (sw_js @ concat (map import_scripts
                    (map (path_join boilerplate) required_js_paths @
                     map (format_script E) scripts))))"

definition add_service_worker :: "env \<Rightarrow> dict \<Rightarrow> string list \<Rightarrow> string \<Rightarrow> world \<Rightarrow> unit result" where
  "add_service_worker E chrome_app_manifest required_js_paths boilerplate w =
     and_then (copy_script E REGISTER_SCRIPT_NAME boilerplate w) (\<lambda>_ w.
     and_then (copy_script E SW_STATIC_SCRIPT_NAME boilerplate w) (\<lambda>_ w.
       (case generate_service_worker E (output_tree w) chrome_app_manifest
               required_js_paths boilerplate of
          Inl e \<Rightarrow> (Inl e, w)
        | Inr sw_js \<Rightarrow> on_output IOError (write_file [SW_SCRIPT_NAME] sw_js) w)))"

subsection \<open>The app info script (lines 456--471)\<close>

definition add_app_info :: "env \<Rightarrow> dict \<Rightarrow> world \<Rightarrow> unit result" where
  "add_app_info E chrome_app_manifest w =
     on_output IOError
       (write_file [INFO_SCRIPT_NAME]
          (''caterpillar_.manifest = '' @ json_dumps E 2 chrome_app_manifest @ '';'' @ [CHR 0x0A])) w"

subsection \<open>The conversion (lines 597--760)\<close>

definition DEPENDENCY_MANAGER_INSTALL_FOLDER :: "(string \<times> string) list" where
  "DEPENDENCY_MANAGER_INSTALL_FOLDER = [(''bower'', ''bower_components''), (''npm'', ''node_modules'')]"

definition polyfill_filename :: "string \<Rightarrow> string" where
  "polyfill_filename api = api @ ''.polyfill.js''"

definition polyfill_paths :: "string list \<Rightarrow> string list" where
  "polyfill_paths apis = map (\<lambda>api. path_join ''polyfills'' (polyfill_filename api)) apis"

text \<open>Lines 651--658: the loop that looks every dependency's manager up.\<close>

fun dependency_paths :: "dependency list \<Rightarrow> exn + string list" where
  "dependency_paths [] = Inr []"
| "dependency_paths (dependency # rest) =
     (case map_of DEPENDENCY_MANAGER_INSTALL_FOLDER (dep_manager dependency) of
        None \<Rightarrow> Inl (KeyError (dep_manager dependency))
      | Some folder \<Rightarrow>
          (case dependency_paths rest of
             Inl e \<Rightarrow> Inl e
           | Inr paths \<Rightarrow>
               Inr (path_join (path_join (path_join ''..'' folder) (dep_name dependency))
                      (dep_path dependency) # paths)))"

record resolved =
  detected_apis :: "string list"
  polyfill_manifests :: "(string \<times> pmanifest) list"
  required_dependency_paths :: "string list"

text \<open>The dependencies of lines 638--640, in the order of the dictionary.\<close>

definition dependencies_of :: "(string \<times> pmanifest) list \<Rightarrow> dependency list" where
  "dependencies_of manifests = concat (map (\<lambda>(api, manifest). dependencies manifest) manifests)"

text \<open>Lines 616--664.\<close>

definition resolve_apis :: "env \<Rightarrow> world \<Rightarrow> resolved result" where
  "resolve_apis E w =
     (let found = app_apis E (output_tree w);
          w1 = (if found \<noteq> [] then logging INFO (''Found Chrome APIs: '' @ str_join '', '' found) w
                else w);
          w2 = logging INFO (''Polyfilled Chrome APIs: '' @ str_join '', '' (polyfillable found)) w1;
          w3 = logging WARNING
                 (''Could not polyfill Chrome APIs: '' @ str_join '', '' (not_polyfillable found)) w2;
          manifests = load_many (load_manifest E) (polyfillable found)
      in case dependency_paths (dependencies_of manifests) of
           Inl e \<Rightarrow> (Inl e, w3)
         | Inr paths \<Rightarrow>
             (Inr \<lparr>detected_apis = found, polyfill_manifests = manifests,
                   required_dependency_paths = paths\<rparr>, w3))"

definition required_script_paths :: "resolved \<Rightarrow> string list" where
  "required_script_paths r =
     [''caterpillar.js'', REGISTER_SCRIPT_NAME] @ [path_join ''..'' INFO_SCRIPT_NAME] @
     required_dependency_paths r @ polyfill_paths (polyfillable (detected_apis r))"

definition required_static_paths :: "resolved \<Rightarrow> string list" where
  "required_static_paths r =
     [''caterpillar.js'', REGISTER_SCRIPT_NAME, SW_STATIC_SCRIPT_NAME] @
     polyfill_paths (polyfillable (detected_apis r))"

text \<open>Lines 675--713: the manifest files, the clean-up, the edit and the static code.\<close>

definition build_web_app :: "env \<Rightarrow> config \<Rightarrow> resolved \<Rightarrow> dict \<Rightarrow> world \<Rightarrow> unit result" where
  "build_web_app E cfg r chrome_app_manifest w =
     (let w0 = logging INFO (''Got start URL from config file: `'' @ start_url cfg @ ''`'') w
      in case generate_web_manifest chrome_app_manifest (start_url cfg) of
           Inl e \<Rightarrow> (Inl e, w0)
         | Inr web_manifest \<Rightarrow>
             and_then (on_output IOError
                         (write_file [WEB_MANIFEST_FILENAME] (json_dumps E 4 web_manifest)) w0)
               (\<lambda>_ w.
             and_then (add_app_info E chrome_app_manifest w) (\<lambda>_ w.
             and_then (cleanup_output_dir (MANIFEST_FILENAME E) w) (\<lambda>_ w.
             and_then (edit_code E (required_script_paths r) chrome_app_manifest cfg w) (\<lambda>_ w.
             copy_static_code E (required_static_paths r) (boilerplate_dir cfg) w)))))"

text \<open>
  Lines 723--760: the service worker, the status and the report. The report generator is
  not among the sources; its call is recorded with its arguments.
\<close>

definition finish_conversion :: "env \<Rightarrow> config \<Rightarrow> resolved \<Rightarrow> dict \<Rightarrow> world \<Rightarrow> unit result" where
  "finish_conversion E cfg r chrome_app_manifest w =
     and_then (add_service_worker E chrome_app_manifest
                 (required_dependency_paths r @ polyfill_paths (polyfillable (detected_apis r)))
                 (boilerplate_dir cfg) w) (\<lambda>_ w.
       (let w1 = logging INFO ''Generating conversion report.''
                   (logging INFO ''Conversion complete.'' w);
            manifests = add_defaults (not_polyfillable (detected_apis r)) (polyfill_manifests r);
            call = \<lparr>rc_report_dir = report_dir cfg, rc_manifest = chrome_app_manifest,
                    rc_polyfill_manifests = manifests,
                    rc_status = conversion_status manifests,
                    rc_warnings = captured_warnings w1\<rparr>
        in (Inr (), logging INFO ''Done.'' (w1\<lparr>reports := reports w1 @ [call]\<rparr>))))"

text \<open>Lines 715--721 and what follows them.\<close>

definition install_and_finish :: "env \<Rightarrow> config \<Rightarrow> resolved \<Rightarrow> dict \<Rightarrow> world \<Rightarrow> unit result" where
  "install_and_finish E cfg r chrome_app_manifest w =
     (case install_dependencies E (dependencies_of (polyfill_manifests r)) w of
        (Inl (ValueError message), w') \<Rightarrow> (Inr (), logging ERROR message w')
      | (Inl e, w') \<Rightarrow> (Inl e, w')
      | (Inr _, w') \<Rightarrow> finish_conversion E cfg r chrome_app_manifest w')"

text \<open>Lines 666--673 and what follows them.\<close>

definition convert_staged :: "env \<Rightarrow> config \<Rightarrow> resolved \<Rightarrow> world \<Rightarrow> unit result" where
  "convert_staged E cfg r w =
     (case chrome_manifest E (input_tree w) of
        Inl (ValueError message) \<Rightarrow> (Inr (), logging ERROR message w)
      | Inl e \<Rightarrow> (Inl e, w)
      | Inr chrome_app_manifest \<Rightarrow>
          (case build_web_app E cfg r chrome_app_manifest w of
             (Inl e, w') \<Rightarrow> (Inl e, w')
           | (Inr _, w') \<Rightarrow> install_and_finish E cfg r chrome_app_manifest w'))"

text \<open>
  \<^verbatim>\<open>convert_app\<close>. It returns nothing; a raised exception that it does not catch is its
  \<open>Inl\<close> result.
\<close>

definition convert_app :: "env \<Rightarrow> config \<Rightarrow> bool \<Rightarrow> world \<Rightarrow> unit result" where
  "convert_app E cfg force w =
     (case setup_output_dir (boilerplate_dir cfg) (report_dir cfg) force w of
        (Inl (OSError message), w') \<Rightarrow> (Inr (), logging ERROR message w')
      | (Inl e, w') \<Rightarrow> (Inl e, w')
      | (Inr _, w') \<Rightarrow>
          (case resolve_apis E w' of
             (Inl e, w'') \<Rightarrow> (Inl e, w'')
           | (Inr r, w'') \<Rightarrow> convert_staged E cfg r w''))"

subsection \<open>Vocabulary of the properties\<close>



text \<open>
  The file paths that a list of walk results yields, as line 387 reads them off.
\<close>

definition files_of :: "(path \<times> string list \<times> string list) list \<Rightarrow> path list" where
  "files_of triples =
     concat (map (\<lambda>(dirpath, dirnames, filenames). map (\<lambda>filename. dirpath @ [filename]) filenames) triples)"





text \<open>The number of children of the element at a position below an element.\<close>

definition children_in :: "nat list \<Rightarrow> dom \<Rightarrow> nat" where
  "children_in b n = (case n of Tag _ _ cs \<Rightarrow> n_children b cs | Text _ \<Rightarrow> 0)"

subsection \<open>A small conversion\<close>

text \<open>
  An app of four files that uses \<^verbatim>\<open>chrome.tts\<close>, whose polyfill has one dependency. The
  installer prints nothing on standard output, exits with status 0 and leaves a file
  \<^verbatim>\<open>z.js\<close> behind. The theorems are instantiated with it.
\<close>

definition example_env :: env where
  "example_env =
     \<lparr>app_apis = (\<lambda>tree. [''app.runtime'', ''tts'']),
      api_member_used = lexical_api_member,
      load_manifest = (\<lambda>api. \<lparr>status = ''total'', dependencies =
        [\<lparr>dep_name = ''lib'', dep_path = ''lib.js'', dep_manager = ''bower''\<rparr>]\<rparr>),
      chrome_manifest = (\<lambda>tree. Inr
        [(''name'', JStr ''App''),
         (''app'', JObj [(''background'', JObj [(''scripts'', JArr [JStr ''bg.js''])])])]),
      MANIFEST_FILENAME = ''manifest.json'',
      parse_html = (\<lambda>text. [Tag ''html'' [] [Tag ''body'' [] [Text text]]]),
      prettify = (\<lambda>soup. ''<html>''),
      json_dumps = (\<lambda>indent value. ''{}''),
      py_str = (\<lambda>value. ''?''),
      script_dir_js = (\<lambda>source. Some ''// js''),
      popen = (\<lambda>call tree. Inr
        \<lparr>stdout = [], stderr = ''not found'', returncode = 0,
         tree_after = (case write_file [''z.js''] ''z'' tree of Inr tree' \<Rightarrow> tree' | Inl _ \<Rightarrow> tree)\<rparr>),
      randrange = 42\<rparr>"

definition example_config :: config where
  "example_config =
     \<lparr>boilerplate_dir = ''caterpillar'', report_dir = ''report'', start_url = ''index.html''\<rparr>"

definition example_world :: world where
  "example_world =
     \<lparr>input_tree = Some (Dir
        [(''manifest.json'', File ''{}''),
         (''x.js'', File ''chrome.tts.speak();''),
         (''a'', Dir [(''y.js'', File ''var y;'')]),
         (''index.html'', File ''hi'')]),
      output_tree = None, logged = [], reports = []\<rparr>"









text \<open>
  The same registry with a dependency whose manager is neither \<^verbatim>\<open>bower\<close> nor \<^verbatim>\<open>npm\<close>.
\<close>

definition example_env_yarn :: env where
  "example_env_yarn = example_env
     \<lparr>load_manifest := (\<lambda>api. \<lparr>status = ''total'', dependencies =
        [\<lparr>dep_name = ''lib'', dep_path = ''lib.js'', dep_manager = ''yarn''\<rparr>]\<rparr>)\<rparr>"

section \<open>Properties\<close>

subsection \<open>Dictionaries\<close>

lemma map_of_fold_update:
  "map_of (fold (\<lambda>k d. AList.update k (f k) d) ks d) k =
     (if k \<in> set ks then Some (f k) else map_of d k)"
  by (induction ks arbitrary: d) (auto simp: update_conv')

lemma distinct_fold_update:
  "distinct (map fst d) \<Longrightarrow> distinct (map fst (fold (\<lambda>k d. AList.update k (f k) d) ks d))"
  by (induction ks arbitrary: d) (auto simp: distinct_update)

lemma keys_fold_update:
  "fst ` set (fold (\<lambda>k d. AList.update k (f k) d) ks d) = set ks \<union> fst ` set d"
  by (induction ks arbitrary: d) (auto simp: dom_update)

lemma map_of_load_many:
  "map_of (load_many load apis) api = (if api \<in> set apis then Some (load api) else None)"
  by (simp add: load_many_def map_of_fold_update)

lemma map_of_report_manifests:
  "map_of (report_manifests load apis) api =
     (if api \<in> set apis
      then Some (if api \<in> set POLYFILLS then load api else default_manifest api)
      else None)"
  by (auto simp: report_manifests_def add_defaults_def map_of_fold_update map_of_load_many
      polyfillable_def not_polyfillable_def)

lemma distinct_report_manifests: "distinct (map fst (report_manifests load apis))"
  by (simp add: report_manifests_def add_defaults_def load_many_def distinct_fold_update)

lemma conversion_status_total_iff:
  "conversion_status d = ''total'' \<longleftrightarrow>
     (\<forall>(api, m) \<in> set d. api \<notin> {''app.window'', ''app.runtime''} \<longrightarrow> status m = ''total'')"
  by (induction d rule: conversion_status.induct) auto

lemma conversion_status_cases:
  "conversion_status d = ''total'' \<or> conversion_status d = ''partial''"
  by (induction d rule: conversion_status.induct) auto


subsection \<open>The web manifest\<close>




subsection \<open>The conversion status\<close>

text \<open>
  Claim C4. The status computed from the descriptors of the detected APIs is \<^verbatim>\<open>total\<close>
  exactly when every detected API other than \<^verbatim>\<open>app.window\<close> and \<^verbatim>\<open>app.runtime\<close> has a
  descriptor of status \<^verbatim>\<open>total\<close>; it is \<^verbatim>\<open>partial\<close> in every other case; and it is \<^verbatim>\<open>total\<close>
  when \<^verbatim>\<open>app.window\<close> and \<^verbatim>\<open>app.runtime\<close> are the only detected APIs, whatever the registry
  holds.
\<close>

theorem conversion_status_classification:
  "(conversion_status (report_manifests load apis) = ''total'' \<longleftrightarrow>
      (\<forall>api \<in> set apis. api \<notin> {''app.window'', ''app.runtime''} \<longrightarrow>
         (\<exists>m. map_of (report_manifests load apis) api = Some m \<and> status m = ''total''))) \<and>
   (conversion_status (report_manifests load apis) \<noteq> ''total'' \<longrightarrow>
      conversion_status (report_manifests load apis) = ''partial'') \<and>
   conversion_status (report_manifests load [''app.window'', ''app.runtime'']) = ''total''"
proof (intro conjI)
  let ?d = "report_manifests load apis"
  have mem: "(api, m) \<in> set ?d \<longleftrightarrow> map_of ?d api = Some m" for api m
    using distinct_report_manifests [of load apis] by simp
  have keys: "map_of ?d api \<noteq> None \<longleftrightarrow> api \<in> set apis" for api
    by (simp add: map_of_report_manifests)
  show "conversion_status ?d = ''total'' \<longleftrightarrow>
      (\<forall>api \<in> set apis. api \<notin> {''app.window'', ''app.runtime''} \<longrightarrow>
         (\<exists>m. map_of ?d api = Some m \<and> status m = ''total''))"
    unfolding conversion_status_total_iff
  proof
    assume l: "\<forall>(api, m) \<in> set ?d. api \<notin> {''app.window'', ''app.runtime''} \<longrightarrow> status m = ''total''"
    show "\<forall>api \<in> set apis. api \<notin> {''app.window'', ''app.runtime''} \<longrightarrow>
         (\<exists>m. map_of ?d api = Some m \<and> status m = ''total'')"
    proof (intro ballI impI)
      fix api assume "api \<in> set apis" and ne: "api \<notin> {''app.window'', ''app.runtime''}"
      then obtain m where m: "map_of ?d api = Some m" using keys [of api] by auto
      then have "(api, m) \<in> set ?d" by (simp add: mem)
      with l ne have "status m = ''total''" by blast
      with m show "\<exists>m. map_of ?d api = Some m \<and> status m = ''total''" by simp
    qed
  next
    assume r: "\<forall>api \<in> set apis. api \<notin> {''app.window'', ''app.runtime''} \<longrightarrow>
         (\<exists>m. map_of ?d api = Some m \<and> status m = ''total'')"
    show "\<forall>(api, m) \<in> set ?d. api \<notin> {''app.window'', ''app.runtime''} \<longrightarrow> status m = ''total''"
    proof (intro ballI)
      fix p assume in_d: "p \<in> set ?d"
      obtain api m where p: "p = (api, m)" by (cases p)
      from in_d p have m: "map_of ?d api = Some m" by (simp add: mem)
      then have "api \<in> set apis" using keys [of api] by simp
      with r m have "api \<notin> {''app.window'', ''app.runtime''} \<longrightarrow> status m = ''total''"
        by fastforce
      with p show "case p of (api, m) \<Rightarrow>
          api \<notin> {''app.window'', ''app.runtime''} \<longrightarrow> status m = ''total''"
        by simp
    qed
  qed
  show "conversion_status ?d \<noteq> ''total'' \<longrightarrow> conversion_status ?d = ''partial''"
    using conversion_status_cases [of ?d] by blast
  show "conversion_status (report_manifests load [''app.window'', ''app.runtime'']) = ''total''"
    by (simp add: report_manifests_def add_defaults_def load_many_def polyfillable_def
        not_polyfillable_def POLYFILLS_def default_manifest_def)
qed

theorem conversion_status_classification_witness:
  "conversion_status (report_manifests
      (\<lambda>api. \<lparr>status = (if api = ''tts'' then ''total'' else ''partial''), dependencies = []\<rparr>)
      [''tts'', ''serial'']) = ''partial'' \<and>
   conversion_status (report_manifests
      (\<lambda>api. \<lparr>status = (if api = ''tts'' then ''total'' else ''partial''), dependencies = []\<rparr>)
      [''tts'', ''app.window'']) = ''total''"
proof -
  let ?load = "\<lambda>api. \<lparr>status = (if api = ''tts'' then ''total'' else ''partial''),
      dependencies = ([] :: dependency list)\<rparr>"
  have a: "map_of (report_manifests ?load [''tts'', ''serial'']) ''serial'' = Some (default_manifest ''serial'')"
    by (simp add: map_of_report_manifests POLYFILLS_def)
  have b: "map_of (report_manifests ?load [''tts'', ''app.window'']) ''tts'' = Some (?load ''tts'')"
    by (simp add: map_of_report_manifests POLYFILLS_def)
  have "conversion_status (report_manifests ?load [''tts'', ''serial'']) \<noteq> ''total''"
    using conversion_status_classification [of ?load "[''tts'', ''serial'']"] a
    by (auto simp: default_manifest_def)
  then have "conversion_status (report_manifests ?load [''tts'', ''serial'']) = ''partial''"
    using conversion_status_classification [of ?load "[''tts'', ''serial'']"] by blast
  moreover have "conversion_status (report_manifests ?load [''tts'', ''app.window'']) = ''total''"
    using conversion_status_classification [of ?load "[''tts'', ''app.window'']"] b
    by auto
  ultimately show ?thesis by blast
qed

subsection \<open>Script annotation\<close>

















subsection \<open>The file tree\<close>

lemma lookup_modify_same:
  "modify e f p root = Inr root' \<Longrightarrow>
     \<exists>r. f (lookup root p) = Inr r \<and> lookup root' p = r"
proof (induction e f p root arbitrary: root' rule: modify.induct)
  case (3 e f c es)
  then show ?case
    by (auto split: sum.splits option.splits simp: update_conv' delete_conv')
next
  case (4 e f c c' cs es)
  then show ?case
    by (auto split: sum.splits option.splits simp: update_conv')
qed simp_all

lemma modify_fails:
  "modify e f p root = Inl x \<Longrightarrow> x = e \<or> (\<exists>cur. f cur = Inl x)"
proof (induction e f p root rule: modify.induct)
  case (3 e f c es)
  then show ?case by (auto split: sum.splits option.splits)
next
  case (4 e f c c' cs es)
  then show ?case by (auto split: sum.splits option.splits)
qed simp_all

lemma remove_ok_iff:
  "(\<exists>root'. remove p root = Inr root') \<longleftrightarrow> p \<noteq> [] \<and> (\<exists>c. lookup root p = Some (File c))"
  unfolding remove_def
proof (induction "OSError []" remove_entry p root rule: modify.induct)
  case (3 c es)
  then show ?case
    by (auto simp: remove_entry_def split: option.splits node.splits)
next
  case (4 c c' cs es)
  then show ?case by (auto split: option.splits sum.splits)
qed simp_all

lemma remove_fails:
  assumes "remove p root = Inl x"
  shows "x = OSError []"
proof -
  have "x = OSError [] \<or> (\<exists>cur. remove_entry cur = Inl x)"
    using modify_fails [of "OSError []" remove_entry p root x] assms by (simp add: remove_def)
  moreover have "x = OSError []" if "remove_entry cur = Inl x" for cur
    using that by (auto simp: remove_entry_def split: option.splits node.splits)
  ultimately show ?thesis by blast
qed

lemma remove_lookup:
  assumes "remove p root = Inr root'"
  shows "lookup root' p = None"
proof -
  obtain r where "remove_entry (lookup root p) = Inr r" and "lookup root' p = r"
    using lookup_modify_same [of "OSError []" remove_entry p root root'] assms
    by (auto simp: remove_def)
  then show ?thesis by (auto simp: remove_entry_def split: option.splits node.splits)
qed

subsection \<open>Removing the Chrome App manifest\<close>

text \<open>
  Claim C6, as the code has it. \<^verbatim>\<open>cleanup_output_dir\<close> succeeds exactly when the manifest
  file is a file of the output tree, and then the file is gone; in every other case, the
  absent file among them, it raises OSError and leaves the world as it was.
\<close>

theorem cleanup_output_dir_effect:
  "(fst (cleanup_output_dir manifest_filename w) = Inr () \<longleftrightarrow>
      components manifest_filename \<noteq> [] \<and>
      (\<exists>root c. output_tree w = Some root \<and>
         lookup root (components manifest_filename) = Some (File c))) \<and>
   (fst (cleanup_output_dir manifest_filename w) = Inr () \<longrightarrow>
      (\<exists>root'. snd (cleanup_output_dir manifest_filename w) = w\<lparr>output_tree := Some root'\<rparr> \<and>
         lookup root' (components manifest_filename) = None)) \<and>
   (fst (cleanup_output_dir manifest_filename w) \<noteq> Inr () \<longrightarrow>
      cleanup_output_dir manifest_filename w = (Inl (OSError []), w))"
proof (cases "output_tree w")
  case None
  then show ?thesis by (simp add: cleanup_output_dir_def on_output_def)
next
  case (Some root)
  show ?thesis
  proof (cases "remove (components manifest_filename) root")
    case (Inl x)
    then have x: "x = OSError []" by (rule remove_fails)
    have "\<not> (components manifest_filename \<noteq> [] \<and>
        (\<exists>c. lookup root (components manifest_filename) = Some (File c)))"
      using remove_ok_iff [of "components manifest_filename" root] Inl by simp
    with Some Inl x show ?thesis by (simp add: cleanup_output_dir_def on_output_def)
  next
    case (Inr root')
    then have "lookup root' (components manifest_filename) = None" by (rule remove_lookup)
    moreover have "components manifest_filename \<noteq> [] \<and>
        (\<exists>c. lookup root (components manifest_filename) = Some (File c))"
      using remove_ok_iff [of "components manifest_filename" root] Inr by blast
    ultimately show ?thesis using Some Inr
      by (auto simp: cleanup_output_dir_def on_output_def)
  qed
qed

theorem cleanup_output_dir_effect_witness:
  "fst (cleanup_output_dir ''manifest.json''
     \<lparr>input_tree = None,
      output_tree = Some (Dir [(''manifest.json'', File ''{}''), (''index.html'', File ''hi'')]),
      logged = [], reports = []\<rparr>) = Inr ()"
  using cleanup_output_dir_effect [of "''manifest.json''"
     "\<lparr>input_tree = None,
      output_tree = Some (Dir [(''manifest.json'', File ''{}''), (''index.html'', File ''hi'')]),
      logged = [], reports = []\<rparr>"]
  by (simp add: components_def)

text \<open>
  Claim C6, as stated, fails: with no manifest file in the output tree the removal raises
  OSError.
\<close>

theorem cleanup_output_dir_absent_counterexample:
  "cleanup_output_dir ''manifest.json''
     \<lparr>input_tree = None, output_tree = Some (Dir [(''index.html'', File ''hi'')]),
      logged = [], reports = []\<rparr> =
   (Inl (OSError []),
     \<lparr>input_tree = None, output_tree = Some (Dir [(''index.html'', File ''hi'')]),
      logged = [], reports = []\<rparr>)"
  by (simp add: cleanup_output_dir_def on_output_def remove_def remove_entry_def components_def)

subsection \<open>An output directory that exists\<close>

text \<open>
  Claim C7. When something is at the output path and the overwrite flag is not set,
  \<^verbatim>\<open>convert_app\<close> returns with the world as it was but for one more log record, the error:
  the input tree and the output tree are untouched and no report is made.
\<close>

theorem convert_app_existing_output:
  assumes "output_tree w \<noteq> None" and "\<not> force"
  shows "convert_app E cfg force w =
           (Inr (), w\<lparr>logged := logged w @ [(ERROR, ''Output directory already exists.'')]\<rparr>)"
  using assms by (simp add: convert_app_def setup_output_dir_def logging_def)

theorem convert_app_existing_output_witness:
  "convert_app example_env example_config False
     (example_world\<lparr>output_tree := Some (Dir [(''old.txt'', File ''keep'')])\<rparr>) =
   (Inr (), example_world\<lparr>output_tree := Some (Dir [(''old.txt'', File ''keep'')]),
      logged := [(ERROR, ''Output directory already exists.'')]\<rparr>)"
  using convert_app_existing_output [of
     "example_world\<lparr>output_tree := Some (Dir [(''old.txt'', File ''keep'')])\<rparr>" False
     example_env example_config]
  by (simp add: example_world_def)

subsection \<open>Script-tag injection\<close>

lemma is_tag_insert_in [simp]: "is_tag name (insert_in p new n) = is_tag name n"
  by (cases n) (simp_all add: is_tag_def)

lemma first_path_nonempty:
  "first_path P ns = Some p \<Longrightarrow> p \<noteq> []"
  by (cases ns) (auto split: if_splits option.splits list.splits)

lemma first_path_None:
  "first_path P ns = None \<longleftrightarrow> find_all P ns = []"
  "first_path_in P n = None \<longleftrightarrow> find_all_in P n = []"
proof (induction P ns and P n rule: first_path_first_path_in.induct)
  case (2 P n ns)
  then show ?case
    using first_path_nonempty [of P ns]
    by (auto split: option.splits list.splits)
qed simp_all

lemma insert_at_Suc:
  "insert_at (Suc i # q) new (n # ns) = n # insert_at (i # q) new ns"
  by (cases q) simp_all

lemma insert_at_0:
  "q \<noteq> [] \<Longrightarrow> insert_at (0 # q) new (n # ns) = insert_in q new n # ns"
  by (cases q) simp_all

lemma insert_before_first:
  assumes new: "is_tag name new" "find_all_in (is_tag name) new = []"
  shows "first_path (is_tag name) ns = Some p \<Longrightarrow>
           first_path (is_tag name) (insert_at p new ns) = Some p \<and>
           find_all (is_tag name) (insert_at p new ns) = new # find_all (is_tag name) ns"
    and "first_path_in (is_tag name) n = Some p \<Longrightarrow>
           first_path_in (is_tag name) (insert_in p new n) = Some p \<and>
           find_all_in (is_tag name) (insert_in p new n) = new # find_all_in (is_tag name) n"
proof (induction "is_tag name" ns and "is_tag name" n arbitrary: p and p
    rule: first_path_first_path_in.induct)
  case 1
  then show ?case by simp
next
  case (2 n ns)
  show ?case
  proof (cases "is_tag name n")
    case True
    with "2.prems" have "p = [0]" by simp
    with True new show ?thesis by simp
  next
    case False
    show ?thesis
    proof (cases "first_path_in (is_tag name) n")
      case (Some q)
      with False "2.prems" have p: "p = 0 # q" by simp
      from Some have "q \<noteq> []" by (cases n) (auto dest: first_path_nonempty)
      with "2.hyps"(1) [OF False Some] False Some p show ?thesis
        by (simp add: insert_at_0)
    next
      case None
      with False "2.prems" obtain i q where iq: "first_path (is_tag name) ns = Some (i # q)"
        and p: "p = Suc i # q"
        by (auto split: option.splits list.splits)
      from None have "find_all_in (is_tag name) n = []" by (simp add: first_path_None)
      with "2.hyps"(2) [OF False None iq] False None p show ?thesis
        by (simp add: insert_at_Suc)
    qed
  qed
next
  case (3 uu)
  then show ?case by simp
next
  case (4 uv uw cs)
  then show ?case by simp
qed

lemma find_all_append: "find_all P (xs @ ys) = find_all P xs @ find_all P ys"
  by (induction xs) simp_all

lemma first_path_snoc:
  "find_all P cs = [] \<Longrightarrow> P new \<Longrightarrow> first_path P (cs @ [new]) = Some [length cs]"
proof (induction cs)
  case Nil
  then show ?case by simp
next
  case (Cons c cs)
  then have c: "\<not> P c" "find_all_in P c = []" "find_all P cs = []"
    by (auto split: if_splits)
  then have "first_path_in P c = None" by (simp add: first_path_None)
  with c Cons show ?case by simp
qed

lemma n_children_Suc: "n_children (Suc i # q) (n # ns) = n_children (i # q) ns"
  by simp

lemma append_to_first:
  assumes new: "is_tag name new" "find_all_in (is_tag name) new = []"
  shows "first_path (is_tag other) ns = Some b \<Longrightarrow> find_all (is_tag name) ns = [] \<Longrightarrow>
           first_path (is_tag name) (insert_at (b @ [n_children b ns]) new ns) =
             Some (b @ [n_children b ns]) \<and>
           find_all (is_tag name) (insert_at (b @ [n_children b ns]) new ns) = [new]"
    and "first_path_in (is_tag other) n = Some b \<Longrightarrow> find_all_in (is_tag name) n = [] \<Longrightarrow>
           first_path_in (is_tag name) (insert_in (b @ [children_in b n]) new n) =
             Some (b @ [children_in b n]) \<and>
           find_all_in (is_tag name) (insert_in (b @ [children_in b n]) new n) = [new]"
proof (induction "is_tag other" ns and "is_tag other" n arbitrary: b and b
    rule: first_path_first_path_in.induct)
  case 1
  then show ?case by simp
next
  case (2 n ns)
  from "2.prems"(2) have no: "\<not> is_tag name n" "find_all_in (is_tag name) n = []"
    "find_all (is_tag name) ns = []"
    by (auto split: if_splits)
  show ?case
  proof (cases "is_tag other n")
    case True
    with "2.prems" have b: "b = [0]" by simp
    from True obtain nm a cs where n: "n = Tag nm a cs" by (cases n) (auto simp: is_tag_def)
    from no(2) n have cs: "find_all (is_tag name) cs = []" by simp
    have k: "n_children b (n # ns) = length cs" using b n by simp
    have ins: "insert_at (b @ [n_children b (n # ns)]) new (n # ns) = Tag nm a (cs @ [new]) # ns"
      using b n k by simp
    have tag: "\<not> is_tag name (Tag nm a (cs @ [new]))" using no(1) n by (simp add: is_tag_def)
    show ?thesis
      unfolding ins using tag cs no(3) new first_path_snoc [OF cs new(1)] b k
      by (simp add: find_all_append)
  next
    case False
    show ?thesis
    proof (cases "first_path_in (is_tag other) n")
      case (Some q)
      with False "2.prems" have b: "b = 0 # q" by simp
      from Some obtain nm a cs where n: "n = Tag nm a cs" by (cases n) auto
      define k where "k = children_in q n"
      have kk: "n_children b (n # ns) = k" using b n by (simp add: children_in_def k_def)
      have ins: "insert_at (b @ [k]) new (n # ns) = insert_in (q @ [k]) new n # ns"
        using b by (simp add: insert_at_0)
      from "2.hyps"(1) [OF False Some no(2)]
      have IH: "first_path_in (is_tag name) (insert_in (q @ [k]) new n) = Some (q @ [k])"
        "find_all_in (is_tag name) (insert_in (q @ [k]) new n) = [new]"
        by (simp_all add: k_def)
      show ?thesis
        unfolding kk ins using IH no b by simp
    next
      case None
      with False "2.prems" obtain i q where iq: "first_path (is_tag other) ns = Some (i # q)"
        and b: "b = Suc i # q"
        by (auto split: option.splits list.splits)
      define k where "k = n_children (i # q) ns"
      have kk: "n_children b (n # ns) = k" using b by (simp add: k_def)
      have ins: "insert_at (b @ [k]) new (n # ns) = n # insert_at ((i # q) @ [k]) new ns"
        using b by (simp add: insert_at_Suc)
      have none_n: "first_path_in (is_tag name) n = None"
        using no(2) by (simp add: first_path_None)
      from "2.hyps"(2) [OF False None iq no(3)]
      have IH: "first_path (is_tag name) (insert_at ((i # q) @ [k]) new ns) = Some ((i # q) @ [k])"
        "find_all (is_tag name) (insert_at ((i # q) @ [k]) new ns) = [new]"
        by (simp_all add: k_def)
      show ?thesis
        unfolding kk ins using IH no none_n b by simp
    qed
  qed
next
  case (3 uu)
  then show ?case by simp
next
  case (4 uv uw cs)
  from "4.hyps" [OF "4.prems"(1) [simplified]] "4.prems"(2) show ?case
    by (simp add: children_in_def)
qed

lemma script_tag_is_script:
  "is_tag ''script'' (script_tag r b x)" "find_all_in (is_tag ''script'') (script_tag r b x) = []"
  by (simp_all add: script_tag_def is_tag_def)

lemma inject_loop_from_first:
  "first_path (is_tag ''script'') soup = Some p \<Longrightarrow>
     \<exists>soup'. inject_loop r b xs (Some p) soup = Inr soup' \<and>
       find_all (is_tag ''script'') soup' =
         map (script_tag r b) (rev xs) @ find_all (is_tag ''script'') soup"
proof (induction xs arbitrary: soup)
  case Nil
  then show ?case by simp
next
  case (Cons x xs)
  let ?soup = "insert_at p (script_tag r b x) soup"
  from insert_before_first(1) [OF script_tag_is_script Cons.prems]
  have 1: "first_path (is_tag ''script'') ?soup = Some p"
    and 2: "find_all (is_tag ''script'') ?soup = script_tag r b x # find_all (is_tag ''script'') soup"
    by simp_all
  from Cons.IH [OF 1] obtain soup' where
    "inject_loop r b xs (Some p) ?soup = Inr soup'"
    "find_all (is_tag ''script'') soup' =
       map (script_tag r b) (rev xs) @ find_all (is_tag ''script'') ?soup"
    by blast
  with 2 show ?case by (simp add: script_tag_def Let_def)
qed

lemma inject_script_tags_order:
  assumes "required_js_paths \<noteq> []"
    and "find_all (is_tag ''script'') soup \<noteq> [] \<or> find_all (is_tag ''body'') soup \<noteq> []"
  shows "\<exists>soup'. inject_script_tags soup required_js_paths r b = Inr soup' \<and>
     find_all (is_tag ''script'') soup' =
       map (script_tag r b) required_js_paths @ find_all (is_tag ''script'') soup"
proof (cases "first_path (is_tag ''script'') soup")
  case (Some p)
  from inject_loop_from_first [OF Some, of r b "rev required_js_paths"] assms(1) Some
  show ?thesis by (simp add: inject_script_tags_def)
next
  case None
  then have none: "find_all (is_tag ''script'') soup = []" by (simp add: first_path_None)
  with assms(2) obtain body where body: "first_path (is_tag ''body'') soup = Some body"
    using first_path_None(1) [of "is_tag ''body''" soup] by auto
  from assms(1) obtain x xs where rev: "rev required_js_paths = x # xs"
    by (cases "rev required_js_paths") auto
  let ?p = "body @ [n_children body soup]"
  let ?soup = "insert_at ?p (script_tag r b x) soup"
  from append_to_first(1) [OF script_tag_is_script body none]
  have 1: "first_path (is_tag ''script'') ?soup = Some ?p"
    and 2: "find_all (is_tag ''script'') ?soup = [script_tag r b x]"
    by simp_all
  from inject_loop_from_first [OF 1, of r b xs] obtain soup' where s:
    "inject_loop r b xs (Some ?p) ?soup = Inr soup'"
    "find_all (is_tag ''script'') soup' =
       map (script_tag r b) (rev xs) @ find_all (is_tag ''script'') ?soup"
    by blast
  have "inject_script_tags soup required_js_paths r b = Inr soup'"
    using assms(1) None body rev s(1)
    by (simp add: inject_script_tags_def append_child_def script_tag_def Let_def)
  moreover have "map (script_tag r b) required_js_paths = map (script_tag r b) (rev xs) @ [script_tag r b x]"
    using rev by (metis list.simps(8,9) map_append rev.simps(2) rev_rev_ident)
  ultimately show ?thesis using s(2) 2 none by simp
qed

lemma inject_script_tags_no_body:
  assumes "required_js_paths \<noteq> []"
    and "find_all (is_tag ''script'') soup = []" and "find_all (is_tag ''body'') soup = []"
  shows "inject_script_tags soup required_js_paths r b = Inl AttributeError"
proof -
  from assms(1) obtain x xs where "rev required_js_paths = x # xs"
    by (cases "rev required_js_paths") auto
  with assms show ?thesis
    by (simp add: inject_script_tags_def first_path_None [symmetric] Let_def)
qed

lemma inject_script_tags_example:
  "inject_script_tags
     [Tag ''html'' [] [Tag ''body'' [] [Text ''hi'', Tag ''script'' [(''src'', JStr ''S'')] []]]]
     [''a'', ''b'', ''c''] ''.'' ''caterpillar'' =
   Inr [Tag ''html'' [] [Tag ''body'' []
         [Text ''hi'',
          Tag ''script'' [(''src'', JStr ''./caterpillar/a'')] [],
          Tag ''script'' [(''src'', JStr ''./caterpillar/b'')] [],
          Tag ''script'' [(''src'', JStr ''./caterpillar/c'')] [],
          Tag ''script'' [(''src'', JStr ''S'')] []]]]"
  by code_simp

text \<open>
  Claim C3 at a document of one paragraph, with no script element and no body element:
  the first pass of the loop evaluates \<^verbatim>\<open>soup.body.append\<close> on \<^verbatim>\<open>None\<close> and the injection raises
  AttributeError; no script element is inserted.
\<close>

theorem inject_script_tags_without_body:
  "inject_script_tags [Tag ''p'' [] [Text ''hi'']] [''a'', ''b'', ''c''] ''.'' ''caterpillar'' =
     Inl AttributeError"
  by code_simp

subsection \<open>Walking the tree\<close>

lemma files_of_simps [simp]:
  "files_of [] = []"
  "files_of ((d, ds, fs) # ts) = map (\<lambda>f. d @ [f]) fs @ files_of ts"
  "files_of (xs @ ys) = files_of xs @ files_of ys"
  by (simp_all add: files_of_def)












subsection \<open>Writing files\<close>









subsection \<open>The stages of the conversion\<close>












subsection \<open>The small conversion, evaluated\<close>







subsection \<open>The cached files\<close>






subsection \<open>Installations that fail\<close>



subsection \<open>A manager that is not known\<close>

text \<open>
  Claim C8 at a registry with a dependency managed by \<^verbatim>\<open>yarn\<close>: the look-up of line 656
  raises KeyError, which \<^verbatim>\<open>convert_app\<close> does not catch; no error is logged and the
  installation, which would raise the ValueError that lines 719--721 handle, is never
  reached.
\<close>

theorem convert_app_unknown_manager:
  "convert_app example_env_yarn example_config False example_world =
     (Inl (KeyError ''yarn''),
      \<lparr>input_tree = input_tree example_world,
       output_tree = Some (Dir
         [(''manifest.json'', File ''{}''),
          (''x.js'', File ''chrome.tts.speak();''),
          (''a'', Dir [(''y.js'', File ''var y;'')]),
          (''index.html'', File ''hi''),
          (''caterpillar'', Dir [(''polyfills'', Dir [])]),
          (''report'', Dir [])]),
       logged =
         [(INFO, ''Found Chrome APIs: app.runtime, tts''),
          (INFO, ''Polyfilled Chrome APIs: tts''),
          (WARNING, ''Could not polyfill Chrome APIs: app.runtime'')],
       reports = []\<rparr>)"
  by code_simp

lemma install_dependencies_unknown_manager:
  "dep_manager d \<noteq> ''bower'' \<Longrightarrow> dep_manager d \<noteq> ''npm'' \<Longrightarrow>
     install_dependencies E (d # ds) w =
       (Inl (ValueError (''Invalid dependency: No such manager `'' @ dep_manager d @ ''`.'')), w)"
  by (simp add: install_one_def)

end
